theory Spec2Isabelle
  imports Complex_Main "HOL-Library.Multiset"
begin

section \<open>Data model\<close>

text \<open>
  The retrieval strategies of \<^verbatim>\<open>retrieval_strategies.py\<close> and the manager of
  \<^verbatim>\<open>utils.py\<close>, embedded as HOL functions. A raised exception is the left
  injection of a sum; the collaborators (vector index, lexical index, language model)
  are functions that may return an exception. Strings are character lists, one
  \<^typ>\<open>char\<close> per code point. Scores are reals, so the rounding of floating point
  arithmetic and the value NaN are outside the model.
\<close>

datatype error = SearchError | LLMError | BM25Error | TypeError | AttributeError

text \<open>Scalar metadata values, compared with Python's \<^verbatim>\<open>==\<close>.\<close>

datatype pyval = PNone | PBool bool | PInt int | PFloat real | PStr string

fun py_num :: "pyval \<Rightarrow> real option" where
  "py_num (PBool b) = Some (if b then 1 else 0)"
| "py_num (PInt i) = Some (of_int i)"
| "py_num (PFloat r) = Some r"
| "py_num _ = None"

definition py_eq :: "pyval \<Rightarrow> pyval \<Rightarrow> bool" where
  "py_eq a b =
     (case (py_num a, py_num b) of
        (Some x, Some y) \<Rightarrow> x = y
      | (None, None) \<Rightarrow> a = b
      | _ \<Rightarrow> False)"

record document =
  page_content :: string
  metadata :: "(string \<times> pyval) list"

type_synonym vector_store = "string \<Rightarrow> int \<Rightarrow> error + document list"
type_synonym bm25 = "string \<Rightarrow> error + document list"
type_synonym llm = "string \<Rightarrow> error + string"

text \<open>The slice \<^verbatim>\<open>xs[:n]\<close>: a negative bound counts from the end.\<close>

definition py_take :: "int \<Rightarrow> 'a list \<Rightarrow> 'a list" where
  "py_take n xs =
     (if 0 \<le> n then take (nat n) xs else take (length xs - nat (- n)) xs)"

text \<open>The deduplication key \<^verbatim>\<open>doc.page_content[:100]\<close>.\<close>

definition fingerprint :: "document \<Rightarrow> string" where
  "fingerprint doc = py_take 100 (page_content doc)"

text \<open>
  \<^verbatim>\<open>try: body except Exception: return fallback\<close>, the handler being evaluated only
  when the body raised.
\<close>

definition try_except :: "error + 'a \<Rightarrow> error + 'a \<Rightarrow> error + 'a" where
  "try_except body handler = (case body of Inl e \<Rightarrow> handler | Inr r \<Rightarrow> Inr r)"

text \<open>
  The merge dictionary \<^verbatim>\<open>doc_dict\<close>: insertion ordered, one entry per key, each
  entry the first document seen under the key and an accumulator.
\<close>

type_synonym 'a doc_dict = "(string \<times> document \<times> 'a) list"

definition dict_contains :: "string \<Rightarrow> 'a doc_dict \<Rightarrow> bool" where
  "dict_contains key dd = (key \<in> set (map fst dd))"

text \<open>\<^verbatim>\<open>doc_dict[key] = {"doc": doc, ...}\<close> for a key that is not in the dictionary.\<close>

definition dict_new :: "string \<Rightarrow> document \<Rightarrow> 'a \<Rightarrow> 'a doc_dict \<Rightarrow> 'a doc_dict" where
  "dict_new key doc a dd = dd @ [(key, doc, a)]"

text \<open>An in-place update of the accumulator of the entry under \<open>key\<close>.\<close>

definition dict_update :: "string \<Rightarrow> ('a \<Rightarrow> 'a) \<Rightarrow> 'a doc_dict \<Rightarrow> 'a doc_dict" where
  "dict_update key upd dd =
     map (\<lambda>(k, d, a). if k = key then (k, d, upd a) else (k, d, a)) dd"

section \<open>Semantic\<close>

definition semantic_retrieve :: "vector_store \<Rightarrow> string \<Rightarrow> int \<Rightarrow> error + document list" where
  "semantic_retrieve vs query k =
     (case vs query k of Inr docs \<Rightarrow> Inr docs | Inl e \<Rightarrow> Inr [])"

section \<open>Hybrid\<close>

definition hybrid_add :: "real \<Rightarrow> document \<Rightarrow> real doc_dict \<Rightarrow> real doc_dict" where
  "hybrid_add w doc dd =
     (let key = fingerprint doc
      in if \<not> dict_contains key dd then dict_new key doc w dd
         else dict_update key (\<lambda>s. s + w) dd)"

definition hybrid_dict ::
  "real \<Rightarrow> real \<Rightarrow> document list \<Rightarrow> document list \<Rightarrow> real doc_dict" where
  "hybrid_dict sw kw semantic_docs keyword_docs =
     fold (hybrid_add kw) keyword_docs (fold (hybrid_add sw) semantic_docs [])"

definition hybrid_sorted ::
  "real \<Rightarrow> real \<Rightarrow> document list \<Rightarrow> document list \<Rightarrow> real doc_dict" where
  "hybrid_sorted sw kw semantic_docs keyword_docs =
     sort_key (\<lambda>(k, d, s). - s) (hybrid_dict sw kw semantic_docs keyword_docs)"

definition hybrid_retrieve ::
  "vector_store \<Rightarrow> real \<Rightarrow> real \<Rightarrow> bm25 option \<Rightarrow> string \<Rightarrow> int \<Rightarrow> error + document list" where
  "hybrid_retrieve vs sw kw bm25_retriever query k =
     try_except
       (case bm25_retriever of
          None \<Rightarrow> vs query k
        | Some bm \<Rightarrow>
            (case vs query k of
               Inl e \<Rightarrow> Inl e
             | Inr semantic_docs \<Rightarrow>
                 (case bm query of
                    Inl e \<Rightarrow> Inl e
                  | Inr found \<Rightarrow>
                      Inr (map (\<lambda>(key, d, s). d)
                            (py_take k (hybrid_sorted sw kw semantic_docs (py_take k found)))))))
       (vs query k)"

section \<open>String helpers of the strategies\<close>

text \<open>\<^verbatim>\<open>str.isspace\<close>, \<^verbatim>\<open>str.strip()\<close>, \<^verbatim>\<open>str.split(c)\<close>, \<^verbatim>\<open>str.lower()\<close>,
  \<^verbatim>\<open>sep.join(xs)\<close> and \<^verbatim>\<open>str(n)\<close> on code points below 256.\<close>

definition is_space :: "char \<Rightarrow> bool" where
  "is_space c =
     (let n = (of_char c :: nat)
      in (9 \<le> n \<and> n \<le> 13) \<or> (28 \<le> n \<and> n \<le> 32) \<or> n = 133 \<or> n = 160)"

definition strip :: "string \<Rightarrow> string" where
  "strip s = rev (dropWhile is_space (rev (dropWhile is_space s)))"

fun split_on :: "char \<Rightarrow> string \<Rightarrow> string list" where
  "split_on c [] = [[]]"
| "split_on c (x # xs) =
     (if x = c then [] # split_on c xs
      else (case split_on c xs of [] \<Rightarrow> [[x]] | p # ps \<Rightarrow> (x # p) # ps))"



fun join :: "string \<Rightarrow> string list \<Rightarrow> string" where
  "join sep [] = []"
| "join sep [x] = x"
| "join sep (x # y # ys) = x @ sep @ join sep (y # ys)"

fun str_nat :: "nat \<Rightarrow> string" where
  "str_nat n =
     (if n < 10 then [char_of (48 + n)]
      else str_nat (n div 10) @ [char_of (48 + n mod 10)])"

definition str_int :: "int \<Rightarrow> string" where
  "str_int i = (if i < 0 then CHR ''-'' # str_nat (nat (- i)) else str_nat (nat i))"

definition NL :: string where
  "NL = [CHR 0x0A]"

text \<open>The non-blank lines of a model response, stripped, at most \<open>n\<close> of them:
  \<^verbatim>\<open>[p.strip() for p in content.strip().split('\n') if p.strip()][:n]\<close>.\<close>

definition response_lines :: "int \<Rightarrow> string \<Rightarrow> string list" where
  "response_lines n content =
     py_take n (map strip (filter (\<lambda>p. strip p \<noteq> []) (split_on (CHR 0x0A) (strip content))))"

section \<open>Query expansion\<close>

definition paraphrase_prompt :: "int \<Rightarrow> string \<Rightarrow> string" where
  "paraphrase_prompt expansion_count query =
     ''Generate '' @ str_int expansion_count
       @ '' different ways to rephrase this question. '' @ NL
       @ ''Return only the questions, one per line, without numbering.'' @ NL @ NL
       @ ''Original Question: '' @ query @ NL @ NL
       @ ''Rephrased Questions:''"

definition generate_paraphrases :: "llm option \<Rightarrow> int \<Rightarrow> string \<Rightarrow> string list" where
  "generate_paraphrases llm_opt expansion_count query =
     (case llm_opt of
        None \<Rightarrow> [query]
      | Some ask \<Rightarrow>
          (case ask (paraphrase_prompt expansion_count query) of
             Inl e \<Rightarrow> [query]
           | Inr content \<Rightarrow> response_lines expansion_count content))"

definition expansion_add :: "document \<Rightarrow> nat doc_dict \<Rightarrow> nat doc_dict" where
  "expansion_add doc dd =
     (let key = fingerprint doc;
          dd' = (if \<not> dict_contains key dd then dict_new key doc 0 dd else dd)
      in dict_update key (\<lambda>c. c + 1) dd')"

text \<open>The loop over the query variants. It returns the dictionary, or the exception
  of the search that raised, and the similarity searches issued so far.\<close>

fun expansion_loop ::
  "vector_store \<Rightarrow> int \<Rightarrow> string list \<Rightarrow> nat doc_dict \<Rightarrow> (string \<times> int) list
     \<Rightarrow> (error + nat doc_dict) \<times> (string \<times> int) list" where
  "expansion_loop vs k [] dd issued = (Inr dd, issued)"
| "expansion_loop vs k (q # qs) dd issued =
     (case vs q k of
        Inl e \<Rightarrow> (Inl e, issued @ [(q, k)])
      | Inr docs \<Rightarrow> expansion_loop vs k qs (fold expansion_add docs dd) (issued @ [(q, k)]))"

definition expansion_sorted :: "nat doc_dict \<Rightarrow> nat doc_dict" where
  "expansion_sorted dd = sort_key (\<lambda>(key, d, c). - int c) dd"

text \<open>\<^verbatim>\<open>SemanticQueryExpansionRetriever.retrieve\<close> with the searches it issued.\<close>

definition expansion_retrieve_traced ::
  "vector_store \<Rightarrow> llm option \<Rightarrow> int \<Rightarrow> string \<Rightarrow> int
     \<Rightarrow> (error + document list) \<times> (string \<times> int) list" where
  "expansion_retrieve_traced vs llm_opt expansion_count query k =
     (let queries = [query] @ generate_paraphrases llm_opt expansion_count query
      in case expansion_loop vs k queries [] [] of
           (Inr dd, issued) \<Rightarrow>
             (Inr (map (\<lambda>(key, d, c). d) (py_take k (expansion_sorted dd))), issued)
         | (Inl e, issued) \<Rightarrow> (vs query k, issued @ [(query, k)]))"

definition expansion_retrieve ::
  "vector_store \<Rightarrow> llm option \<Rightarrow> int \<Rightarrow> string \<Rightarrow> int \<Rightarrow> error + document list" where
  "expansion_retrieve vs llm_opt expansion_count query k =
     fst (expansion_retrieve_traced vs llm_opt expansion_count query k)"

section \<open>Context re-ranking\<close>





section \<open>Self-query\<close>

text \<open>
  What \<^verbatim>\<open>json.loads\<close> returns: an object, as the list of its items, or another
  JSON value, of which only the truth value is used. \<open>loads\<close> stands for
  \<^verbatim>\<open>json.loads\<close>, \<open>None\<close> being its \<^verbatim>\<open>JSONDecodeError\<close>. The values of an
  object are scalars here, as the metadata they are compared with.
\<close>

datatype json = JObject "(string \<times> pyval) list" | JOther bool

fun truthy :: "json \<Rightarrow> bool" where
  "truthy (JObject items) = (items \<noteq> [])"
| "truthy (JOther b) = b"

definition filter_prompt :: "string list \<Rightarrow> string \<Rightarrow> string" where
  "filter_prompt metadata_fields query =
     ''Extract metadata filters from this query if present.'' @ NL
       @ ''Return a JSON object with extracted filters, or empty object if none found.'' @ NL @ NL
       @ ''Available metadata fields: '' @ join '', '' metadata_fields @ NL @ NL
       @ ''Query: '' @ query @ NL @ NL
       @ ''Extracted Filters (JSON only):''"

definition extract_filters ::
  "llm option \<Rightarrow> (string \<Rightarrow> json option) \<Rightarrow> string list \<Rightarrow> string \<Rightarrow> json" where
  "extract_filters llm_opt loads metadata_fields query =
     (case llm_opt of
        None \<Rightarrow> JObject []
      | Some ask \<Rightarrow>
          (case ask (filter_prompt metadata_fields query) of
             Inl e \<Rightarrow> JObject []
           | Inr content \<Rightarrow>
               (case loads (strip content) of
                  None \<Rightarrow> JObject []
                | Some filters \<Rightarrow> filters)))"

text \<open>The inner loop over \<^verbatim>\<open>filters.items()\<close>, leaving at the first mismatch.\<close>

fun matches :: "(string \<times> pyval) list \<Rightarrow> document \<Rightarrow> bool" where
  "matches [] doc = True"
| "matches ((key, v) # items) doc =
     (case map_of (metadata doc) key of
        Some m \<Rightarrow> (if \<not> py_eq m v then False else matches items doc)
      | None \<Rightarrow> matches items doc)"

definition self_query_retrieve ::
  "vector_store \<Rightarrow> llm option \<Rightarrow> (string \<Rightarrow> json option) \<Rightarrow> string list \<Rightarrow> string \<Rightarrow> int
     \<Rightarrow> error + document list" where
  "self_query_retrieve vs llm_opt loads metadata_fields query k =
     try_except
       (let filters = extract_filters llm_opt loads metadata_fields query
        in case vs query k of
             Inl e \<Rightarrow> Inl e
           | Inr docs \<Rightarrow>
               (if truthy filters then
                  (case filters of
                     JObject items \<Rightarrow>
                       (let filtered_docs = filter (matches items) docs
                        in Inr (py_take k (if filtered_docs \<noteq> [] then filtered_docs else docs)))
                   | JOther b \<Rightarrow>
                       (if docs = [] then Inr (py_take k docs) else Inl AttributeError))
                else Inr (py_take k docs)))
       (vs query k)"

section \<open>Multi-hop\<close>







section \<open>Strategy registry\<close>

text \<open>An instance of a strategy class, with the fields its constructor sets. The
  vector store and the language model, fields of every instance, are passed to
  \<open>retrieve\<close> instead.\<close>

datatype strategy =
    SemanticRetriever
  | HybridRetriever (semantic_weight: real) (keyword_weight: real) (bm25_retriever: "bm25 option")
  | SemanticQueryExpansionRetriever (expansion_count: int)
  | ContextReRankingRetriever (rerank_top_k: int)
  | SelfQueryRetriever (metadata_fields: "string list")
  | MultiHopRetriever (max_hops: int)

fun strategy_name :: "strategy \<Rightarrow> string" where
  "strategy_name SemanticRetriever = ''semantic''"
| "strategy_name (HybridRetriever sw kw bm) = ''hybrid''"
| "strategy_name (SemanticQueryExpansionRetriever n) = ''query_expansion''"
| "strategy_name (ContextReRankingRetriever n) = ''reranking''"
| "strategy_name (SelfQueryRetriever fs) = ''self_query''"
| "strategy_name (MultiHopRetriever n) = ''multihop''"

text \<open>The keyword arguments \<^verbatim>\<open>**kwargs\<close>, each of its annotated type; a keyword no
  constructor declares is \<open>Other_keyword\<close>. A constructor called with a keyword it
  does not declare raises \<^verbatim>\<open>TypeError\<close>.\<close>

datatype kwarg =
    Semantic_weight real
  | Expansion_count int
  | Rerank_top_k int
  | Metadata_fields "string list option"
  | Max_hops int
  | Other_keyword string





definition default_metadata_fields :: "string list" where
  "default_metadata_fields = [''source'', ''page'', ''type'', ''date'']"






section \<open>Retriever manager\<close>






section \<open>Collaborators and passages of the examples\<close>

definition failing_store :: vector_store where
  "failing_store query k = Inl SearchError"

definition doc_a :: document where
  "doc_a = \<lparr>page_content = ''alpha'', metadata = [(''type'', PStr ''manual'')]\<rparr>"

definition doc_b :: document where
  "doc_b = \<lparr>page_content = ''beta'', metadata = [(''type'', PStr ''report'')]\<rparr>"

definition doc_c :: document where
  "doc_c = \<lparr>page_content = ''gamma'', metadata = []\<rparr>"

definition store_abc :: vector_store where
  "store_abc query k = Inr (py_take k [doc_a, doc_b, doc_c])"

text \<open>Two passages with the same first 100 characters and different contents, and
  collaborators that return them.\<close>

definition doc_p1 :: document where
  "doc_p1 = \<lparr>page_content = replicate 100 (CHR ''x'') @ ''1'', metadata = []\<rparr>"

definition doc_p2 :: document where
  "doc_p2 = \<lparr>page_content = replicate 100 (CHR ''x'') @ ''2'', metadata = []\<rparr>"

definition store_collide :: vector_store where
  "store_collide query k = Inr (py_take k [doc_p1, doc_p2, doc_a])"









text \<open>Language models that answer with a JSON object, and a reading of JSON for these
  two answers.\<close>

definition DQ :: string where
  "DQ = [CHR 0x22]"

definition manual_json :: string where
  "manual_json = ''{'' @ DQ @ ''type'' @ DQ @ '': '' @ DQ @ ''manual'' @ DQ @ ''}''"

definition author_json :: string where
  "author_json = ''{'' @ DQ @ ''author'' @ DQ @ '': '' @ DQ @ ''bob'' @ DQ @ ''}''"

definition manual_llm :: llm where
  "manual_llm prompt = Inr manual_json"

definition author_llm :: llm where
  "author_llm prompt = Inr author_json"

definition broken_llm :: llm where
  "broken_llm prompt = Inr ''no filters found''"

definition loads_example :: "string \<Rightarrow> json option" where
  "loads_example s =
     (if s = manual_json then Some (JObject [(''type'', PStr ''manual'')])
      else if s = author_json then Some (JObject [(''author'', PStr ''bob'')])
      else None)"

definition doc_alice :: document where
  "doc_alice = \<lparr>page_content = ''notes of alice'', metadata = [(''author'', PStr ''alice'')]\<rparr>"

definition doc_bob :: document where
  "doc_bob = \<lparr>page_content = ''notes of bob'', metadata = [(''author'', PStr ''bob'')]\<rparr>"

definition store_authors :: vector_store where
  "store_authors query k = Inr (py_take k [doc_alice, doc_bob])"


definition failing_llm :: llm where
  "failing_llm prompt = Inl LLMError"




section \<open>The merge dictionary as a function of the discovery sequence\<close>

text \<open>The three merging loops share one step: update the entry under the fingerprint
  of the passage, or append a new entry for it. \<open>firsts\<close> keeps the first occurrence of
  every element of a list.\<close>

definition upsert ::
  "('c \<Rightarrow> 'a) \<Rightarrow> ('c \<Rightarrow> 'a \<Rightarrow> 'a) \<Rightarrow> document \<times> 'c \<Rightarrow> 'a doc_dict \<Rightarrow> 'a doc_dict" where
  "upsert init upd p dd =
     (if dict_contains (fingerprint (fst p)) dd
      then dict_update (fingerprint (fst p)) (upd (snd p)) dd
      else dict_new (fingerprint (fst p)) (fst p) (init (snd p)) dd)"

definition firsts :: "'b list \<Rightarrow> 'b list" where
  "firsts xs = rev (remdups (rev xs))"

text \<open>How often a fingerprint occurs among passages.\<close>

definition occurrences :: "string \<Rightarrow> document list \<Rightarrow> nat" where
  "occurrences key docs = length (filter (\<lambda>d. fingerprint d = key) docs)"


section \<open>Lemmas on the merge dictionary\<close>

lemma firsts_snoc: "firsts (xs @ [x]) = (if x \<in> set xs then firsts xs else firsts xs @ [x])"
  by (simp add: firsts_def)

lemma firsts_Nil: "firsts [] = []" by (simp add: firsts_def)

lemma set_firsts: "set (firsts xs) = set xs" by (simp add: firsts_def)

lemma distinct_firsts: "distinct (firsts xs)" by (simp add: firsts_def)


lemma keys_dict_update: "map fst (dict_update key upd dd) = map fst dd"
  by (induction dd) (auto simp: dict_update_def)

lemma keys_upsert:
  "map fst (upsert init upd p dd) =
     (if fingerprint (fst p) \<in> set (map fst dd) then map fst dd
      else map fst dd @ [fingerprint (fst p)])"
  by (simp add: upsert_def dict_contains_def keys_dict_update dict_new_def)

lemma keys_fold_upsert:
  "map fst (fold (upsert init upd) ps []) = firsts (map (\<lambda>p. fingerprint (fst p)) ps)"
proof (induction ps rule: rev_induct)
  case Nil
  show ?case by (simp add: firsts_Nil)
next
  case (snoc p ps)
  have "set (firsts (map (\<lambda>p. fingerprint (fst p)) ps)) = set (map (\<lambda>p. fingerprint (fst p)) ps)"
    by (rule set_firsts)
  with snoc show ?case by (auto simp: keys_upsert firsts_snoc)
qed

lemma map_of_dict_update:
  "map_of (dict_update key upd dd) key' =
     (if key' = key then map_option (\<lambda>(d, a). (d, upd a)) (map_of dd key') else map_of dd key')"
  by (induction dd) (auto simp: dict_update_def)

lemma map_of_upsert:
  "map_of (upsert init upd p dd) key =
     (if fingerprint (fst p) = key
      then (case map_of dd key of
              None \<Rightarrow> Some (fst p, init (snd p))
            | Some (d, a) \<Rightarrow> Some (d, upd (snd p) a))
      else map_of dd key)"
proof (cases "fingerprint (fst p) \<in> set (map fst dd)")
  case True
  then obtain v where "map_of dd (fingerprint (fst p)) = Some v"
    by (metis map_of_eq_None_iff not_Some_eq set_map)
  with True show ?thesis
    by (cases v) (auto simp: upsert_def dict_contains_def map_of_dict_update)
next
  case False
  then have "map_of dd (fingerprint (fst p)) = None"
    by (simp add: map_of_eq_None_iff)
  with False show ?thesis
    by (auto simp: upsert_def dict_contains_def dict_new_def map_add_def split: option.splits)
qed

lemma distinct_keys_fold_upsert: "distinct (map fst (fold (upsert init upd) ps []))"
  by (simp add: keys_fold_upsert distinct_firsts)

lemma find_snoc:
  "find P (xs @ [x]) = (case find P xs of None \<Rightarrow> (if P x then Some x else None) | Some y \<Rightarrow> Some y)"
  by (induction xs) auto

lemma doc_fold_upsert:
  "map_option fst (map_of (fold (upsert init upd) ps []) key)
     = find (\<lambda>d. fingerprint d = key) (map fst ps)"
proof (induction ps rule: rev_induct)
  case Nil
  show ?case by simp
next
  case (snoc p ps)
  then show ?case
    by (auto simp: map_of_upsert find_snoc split: option.splits)
qed

lemma acc_fold_upsert:
  "map_option snd (map_of (fold (upsert init upd) ps []) key)
     = (case map snd (filter (\<lambda>p. fingerprint (fst p) = key) ps) of
          [] \<Rightarrow> None
        | c # cs \<Rightarrow> Some (fold upd cs (init c)))"
proof (induction ps rule: rev_induct)
  case Nil
  show ?case by simp
next
  case (snoc p ps)
  then show ?case
    by (auto simp: map_of_upsert split: option.splits list.splits)
qed

lemma entry_fold_upsert:
  assumes "(key, d, a) \<in> set (fold (upsert init upd) ps [])"
  shows "find (\<lambda>x. fingerprint x = key) (map fst ps) = Some d"
    and "\<exists>c cs. map snd (filter (\<lambda>p. fingerprint (fst p) = key) ps) = c # cs
                \<and> a = fold upd cs (init c)"
proof -
  have m: "map_of (fold (upsert init upd) ps []) key = Some (d, a)"
    using assms distinct_keys_fold_upsert [of init upd ps] by simp
  show "find (\<lambda>x. fingerprint x = key) (map fst ps) = Some d"
    using doc_fold_upsert [of init upd ps key] m by simp
  show "\<exists>c cs. map snd (filter (\<lambda>p. fingerprint (fst p) = key) ps) = c # cs
                \<and> a = fold upd cs (init c)"
    using acc_fold_upsert [of init upd ps key] m by (auto split: list.splits)
qed


lemma dict_update_absent: "key \<notin> set (map fst dd) \<Longrightarrow> dict_update key upd dd = dd"
  by (induction dd) (auto simp: dict_update_def)

lemma dict_update_new:
  "key \<notin> set (map fst dd) \<Longrightarrow>
     dict_update key upd (dict_new key doc a dd) = dict_new key doc (upd a) dd"
  using dict_update_absent [of key dd upd] by (simp add: dict_new_def dict_update_def)


lemma expansion_add_upsert: "expansion_add doc = upsert (\<lambda>c. 1) (\<lambda>c n. n + 1) (doc, ())"
  by (rule ext) (simp add: expansion_add_def upsert_def Let_def dict_contains_def dict_update_new)



lemma map_py_take: "map f (py_take k xs) = py_take k (map f xs)"
  by (simp add: py_take_def take_map)













lemma expansion_fold_upsert:
  "fold expansion_add docs dd
     = fold (upsert (\<lambda>c. 1) (\<lambda>c n. n + 1)) (map (\<lambda>d. (d, ())) docs) dd"
  by (induction docs arbitrary: dd) (simp_all add: expansion_add_upsert)


lemma fold_count: "fold (\<lambda>c. Suc) cs a = a + length cs"
  by (induction cs arbitrary: a) simp_all







lemma expansion_entry_count:
  assumes "(key, d, c) \<in> set (fold expansion_add docs [])"
  shows "c = occurrences key docs" and "find (\<lambda>x. fingerprint x = key) docs = Some d"
proof -
  let ?ps = "map (\<lambda>d. (d, ())) docs"
  note e = assms [unfolded expansion_fold_upsert]
  from entry_fold_upsert(2) [OF e] obtain u us where
    us: "map snd (filter (\<lambda>p. fingerprint (fst p) = key) ?ps) = u # us"
    and c: "c = fold (\<lambda>c n. n + 1) us 1"
    by auto
  have "length (map snd (filter (\<lambda>p. fingerprint (fst p) = key) ?ps)) = occurrences key docs"
    by (simp add: occurrences_def filter_map comp_def)
  with us c show "c = occurrences key docs"
    by (simp add: fold_count)
  show "find (\<lambda>x. fingerprint x = key) docs = Some d"
    using entry_fold_upsert(1) [OF e] by (simp add: comp_def)
qed











section \<open>Deduplication by fingerprint\<close>
















section \<open>Context re-ranking\<close>






lemma self_query_filter_path:
  assumes "vs query k = Inr docs"
    and "extract_filters llm_opt loads fs query = JObject items" and "items \<noteq> []"
  shows "self_query_retrieve vs llm_opt loads fs query k
           = Inr (py_take k (if filter (matches items) docs \<noteq> []
                             then filter (matches items) docs else docs))"
  using assms by (simp add: self_query_retrieve_def try_except_def Let_def)


section \<open>Self-query filtering\<close>


lemma manual_filter:
  "extract_filters (Some manual_llm) loads_example fs query = JObject [(''type'', PStr ''manual'')]"
  by (simp add: extract_filters_def manual_llm_def loads_example_def manual_json_def DQ_def
      strip_def is_space_def)

lemma author_filter:
  "extract_filters (Some author_llm) loads_example fs query = JObject [(''author'', PStr ''bob'')]"
  by (simp add: extract_filters_def author_llm_def loads_example_def manual_json_def author_json_def
      DQ_def strip_def is_space_def)

lemma broken_filter:
  "loads_example (strip ''no filters found'') = None"
  by (simp add: loads_example_def manual_json_def author_json_def DQ_def strip_def is_space_def)


section \<open>Self-query filter extraction\<close>

text \<open>
  C8, as the code has it: the filter applied to the candidates is the value the
  response of the language model parses to, whatever its keys; the configured metadata
  fields only enter the prompt, and the result depends on them only through the
  extracted filter. When the response does not parse as JSON the filter is empty and the
  result is the first \<open>k\<close> candidates, unfiltered.
\<close>

theorem self_query_filter_unrestricted:
  "(ask (filter_prompt fs query) = Inr content \<and> loads (strip content) = Some filters \<longrightarrow>
      extract_filters (Some ask) loads fs query = filters)
   \<and> (ask (filter_prompt fs query) = Inr content \<and> loads (strip content) = None \<longrightarrow>
      extract_filters (Some ask) loads fs query = JObject []
      \<and> (vs query k = Inr docs \<longrightarrow>
            self_query_retrieve vs (Some ask) loads fs query k = Inr (py_take k docs)))
   \<and> (extract_filters llm_opt loads fs query = extract_filters llm_opt loads fs' query \<longrightarrow>
      self_query_retrieve vs llm_opt loads fs query k
        = self_query_retrieve vs llm_opt loads fs' query k)"
  by (simp add: extract_filters_def self_query_retrieve_def try_except_def Let_def)

theorem self_query_filter_unrestricted_witness:
  "manual_llm (filter_prompt default_metadata_fields ''manuals'') = Inr manual_json
   \<and> loads_example (strip manual_json) = Some (JObject [(''type'', PStr ''manual'')])
   \<and> extract_filters (Some manual_llm) loads_example default_metadata_fields ''manuals''
        = JObject [(''type'', PStr ''manual'')]
   \<and> broken_llm (filter_prompt default_metadata_fields ''manuals'') = Inr ''no filters found''
   \<and> loads_example (strip ''no filters found'') = None
   \<and> store_abc ''manuals'' 2 = Inr [doc_a, doc_b]
   \<and> self_query_retrieve store_abc (Some broken_llm) loads_example default_metadata_fields ''manuals'' 2
        = Inr [doc_a, doc_b]
   \<and> self_query_retrieve store_abc (Some manual_llm) loads_example default_metadata_fields ''manuals'' 2
        = self_query_retrieve store_abc (Some manual_llm) loads_example [''author''] ''manuals'' 2"
proof -
  have m: "manual_llm (filter_prompt default_metadata_fields ''manuals'') = Inr manual_json"
    by (simp add: manual_llm_def)
  have l: "loads_example (strip manual_json) = Some (JObject [(''type'', PStr ''manual'')])"
    by (simp add: loads_example_def manual_json_def DQ_def strip_def is_space_def)
  have b: "broken_llm (filter_prompt default_metadata_fields ''manuals'') = Inr ''no filters found''"
    by (simp add: broken_llm_def)
  have s: "store_abc ''manuals'' 2 = Inr [doc_a, doc_b]"
    by (simp add: store_abc_def py_take_def)
  have e: "extract_filters (Some manual_llm) loads_example default_metadata_fields ''manuals''
        = extract_filters (Some manual_llm) loads_example [''author''] ''manuals''"
    by (simp add: manual_filter)
  note t1 = self_query_filter_unrestricted [where ask = manual_llm and fs = default_metadata_fields
      and query = "''manuals''" and content = manual_json and loads = loads_example
      and filters = "JObject [(''type'', PStr ''manual'')]" and llm_opt = "Some manual_llm"
      and fs' = "[''author'']" and vs = store_abc and k = 2]
  note t2 = self_query_filter_unrestricted [where ask = broken_llm and fs = default_metadata_fields
      and query = "''manuals''" and content = "''no filters found''" and loads = loads_example
      and vs = store_abc and k = 2 and docs = "[doc_a, doc_b]"]
  have "self_query_retrieve store_abc (Some broken_llm) loads_example default_metadata_fields
          ''manuals'' 2 = Inr (py_take 2 [doc_a, doc_b])"
    using t2 b broken_filter s by blast
  then have r: "self_query_retrieve store_abc (Some broken_llm) loads_example
          default_metadata_fields ''manuals'' 2 = Inr [doc_a, doc_b]"
    by (simp add: py_take_def)
  from t1 m l b broken_filter s r e show ?thesis
    by blast
qed

text \<open>C8 as stated fails: \<open>author\<close> is not a configured field, the response names it,
  and the passage of another author is discarded.\<close>

theorem self_query_filter_counterexample:
  "''author'' \<notin> set default_metadata_fields
   \<and> store_authors ''notes of bob'' 3 = Inr [doc_alice, doc_bob]
   \<and> extract_filters (Some author_llm) loads_example default_metadata_fields ''notes of bob''
        = JObject [(''author'', PStr ''bob'')]
   \<and> self_query_retrieve store_authors (Some author_llm) loads_example default_metadata_fields
        ''notes of bob'' 3 = Inr [doc_bob]"
proof -
  have s: "store_authors ''notes of bob'' 3 = Inr [doc_alice, doc_bob]"
    by (simp add: store_authors_def py_take_def)
  have f: "filter (matches [(''author'', PStr ''bob'')]) [doc_alice, doc_bob] = [doc_bob]"
    by (simp add: doc_alice_def doc_bob_def py_eq_def)
  have "self_query_retrieve store_authors (Some author_llm) loads_example default_metadata_fields
        ''notes of bob'' 3
      = Inr (py_take 3 (if filter (matches [(''author'', PStr ''bob'')]) [doc_alice, doc_bob] \<noteq> []
                        then filter (matches [(''author'', PStr ''bob'')]) [doc_alice, doc_bob]
                        else [doc_alice, doc_bob]))"
    by (rule self_query_filter_path [where vs = store_authors, OF s author_filter]) simp
  then have "self_query_retrieve store_authors (Some author_llm) loads_example
        default_metadata_fields ''notes of bob'' 3 = Inr [doc_bob]"
    unfolding f by (simp add: py_take_def)
  with s author_filter show ?thesis
    by (simp add: default_metadata_fields_def)
qed

lemma generate_paraphrases_fallback:
  assumes "llm_opt = None \<or> (\<exists>ask e. llm_opt = Some ask \<and> ask (paraphrase_prompt n query) = Inl e)"
  shows "generate_paraphrases llm_opt n query = [query]"
  using assms by (auto simp: generate_paraphrases_def)

lemma expansion_traced_twice:
  assumes "generate_paraphrases llm_opt n query = [query]" and "vs query k = Inr docs"
  shows "expansion_retrieve_traced vs llm_opt n query k
           = (Inr (map (\<lambda>(key, d, c). d)
                    (py_take k (expansion_sorted (fold expansion_add (docs @ docs) [])))),
              [(query, k), (query, k)])"
  using assms by (simp add: expansion_retrieve_traced_def)

lemma expansion_traced_failed:
  assumes "generate_paraphrases llm_opt n query = [query]" and "vs query k = Inl e"
  shows "expansion_retrieve_traced vs llm_opt n query k = (Inl e, [(query, k), (query, k)])"
  using assms by (simp add: expansion_retrieve_traced_def)

lemma remdups_absorb: "set xs \<subseteq> set ys \<Longrightarrow> remdups (xs @ ys) = remdups ys"
  by (induction xs) auto

lemma firsts_twice: "distinct xs \<Longrightarrow> firsts (xs @ xs) = xs"
  by (simp add: firsts_def remdups_absorb distinct_remdups_id)

lemma occurrences_twice:
  assumes "distinct (map fingerprint docs)" and "d \<in> set docs"
  shows "occurrences (fingerprint d) (docs @ docs) = 2"
proof -
  have "filter (\<lambda>x. fingerprint x = fingerprint d) docs = [d]"
    using assms
  proof (induction docs)
    case Nil
    then show ?case by simp
  next
    case (Cons x xs)
    show ?case
    proof (cases "x = d")
      case True
      with Cons.prems have "\<forall>y \<in> set xs. fingerprint y \<noteq> fingerprint d"
        by (auto simp: image_iff)
      then have "filter (\<lambda>x. fingerprint x = fingerprint d) xs = []"
        by (simp add: filter_empty_conv)
      with True show ?thesis by simp
    next
      case False
      with Cons.prems have "d \<in> set xs" and "fingerprint x \<noteq> fingerprint d"
        by auto
      with Cons show ?thesis by simp
    qed
  qed
  then show ?thesis by (simp add: occurrences_def)
qed

lemma find_SomeD: "find P xs = Some x \<Longrightarrow> x \<in> set xs \<and> P x"
  by (induction xs) (auto split: if_splits)

lemma expansion_twice_docs:
  assumes dist: "distinct (map fingerprint docs)"
  shows "map (\<lambda>(key, d, c). d) (fold expansion_add (docs @ docs) []) = docs"
    and "\<forall>e \<in> set (fold expansion_add (docs @ docs) []). snd (snd e) = 2"
proof -
  define dd where "dd = fold expansion_add (docs @ docs) []"
  have "map fst dd = firsts (map (\<lambda>p. fingerprint (fst p)) (map (\<lambda>d. (d, ())) (docs @ docs)))"
    unfolding dd_def by (simp only: expansion_fold_upsert keys_fold_upsert)
  also have "\<dots> = firsts (map fingerprint docs @ map fingerprint docs)"
    by (simp add: comp_def)
  also have "\<dots> = map fingerprint docs"
    by (rule firsts_twice [OF dist])
  finally have keys: "map fst dd = map fingerprint docs" .
  then have len: "length dd = length docs"
    by (metis length_map)
  have entry: "d = docs ! i \<and> c = 2" if i: "i < length docs" and e: "dd ! i = (key, d, c)" for i key d c
  proof -
    have m: "(key, d, c) \<in> set dd"
      using i len e by (metis nth_mem)
    have "key = map fst dd ! i"
      using i len e by simp
    then have k: "key = fingerprint (docs ! i)"
      using i by (simp only: keys nth_map)
    from expansion_entry_count [OF m [unfolded dd_def]]
    have c: "c = occurrences key (docs @ docs)"
      and f: "find (\<lambda>x. fingerprint x = key) (docs @ docs) = Some d"
      by simp_all
    from find_SomeD [OF f] have "d \<in> set docs" and "fingerprint d = key"
      by simp_all
    with k dist i have "d = docs ! i"
      by (metis distinct_map inj_on_eq_iff nth_mem)
    moreover have "c = 2"
      using c k i occurrences_twice [OF dist, of "docs ! i"] by simp
    ultimately show ?thesis by simp
  qed
  have "map (\<lambda>(key, d, c). d) dd = docs"
  proof (rule nth_equalityI)
    show "length (map (\<lambda>(key, d, c). d) dd) = length docs"
      by (simp add: len)
  next
    fix i assume "i < length (map (\<lambda>(key, d, c). d) dd)"
    then have i: "i < length docs" by (simp add: len)
    obtain key d c where e: "dd ! i = (key, d, c)"
      by (cases "dd ! i") auto
    with entry [OF i e] i len show "map (\<lambda>(key, d, c). d) dd ! i = docs ! i"
      by simp
  qed
  then show "map (\<lambda>(key, d, c). d) (fold expansion_add (docs @ docs) []) = docs"
    unfolding dd_def .
  have "\<forall>e \<in> set dd. snd (snd e) = 2"
  proof
    fix e assume "e \<in> set dd"
    then obtain i where i: "i < length dd" and ei: "dd ! i = e"
      by (auto simp: in_set_conv_nth)
    obtain key d c where e: "e = (key, d, c)"
      by (cases e) auto
    from entry [of i key d c] i ei e len show "snd (snd e) = 2"
      by simp
  qed
  then show "\<forall>e \<in> set (fold expansion_add (docs @ docs) []). snd (snd e) = 2"
    unfolding dd_def .
qed

lemma expansion_sorted_constant:
  assumes "\<forall>e \<in> set dd. snd (snd e) = n"
  shows "expansion_sorted dd = dd"
proof -
  have eq: "map (\<lambda>(key, d, c). - int c) dd = map (\<lambda>e. - int n) dd"
    using assms by (intro map_cong refl) (auto simp: case_prod_beta)
  have "sorted (map (\<lambda>e. - int n) dd)"
    by (induction dd) simp_all
  then have "sorted (map (\<lambda>(key, d, c). - int c) dd)"
    unfolding eq .
  then show ?thesis
    unfolding expansion_sorted_def by (rule sort_key_id_if_sorted)
qed

lemma expansion_twice_result:
  assumes "distinct (map fingerprint docs)"
  shows "map (\<lambda>(key, d, c). d) (py_take k (expansion_sorted (fold expansion_add (docs @ docs) [])))
           = py_take k docs"
proof -
  define dd where "dd = fold expansion_add (docs @ docs) []"
  have "map (\<lambda>(key, d, c). d) dd = docs" and "\<forall>e \<in> set dd. snd (snd e) = 2"
    unfolding dd_def by (rule expansion_twice_docs [OF assms])+
  then have "map (\<lambda>(key, d, c). d) (py_take k (expansion_sorted dd)) = py_take k docs"
    by (simp add: expansion_sorted_constant [where n = 2] map_py_take)
  then show ?thesis unfolding dd_def .
qed

lemma example_fingerprints:
  "fingerprint doc_p1 = replicate 100 (CHR ''x'')"
  "fingerprint doc_p2 = replicate 100 (CHR ''x'')"
  "fingerprint doc_a = ''alpha''"
  "fingerprint doc_b = ''beta''"
  "fingerprint doc_c = ''gamma''"
  by (simp_all add: fingerprint_def py_take_def doc_p1_def doc_p2_def doc_a_def doc_b_def doc_c_def)

lemma example_fingerprints_differ:
  "replicate 100 (CHR ''x'') \<noteq> ''alpha''"
  "replicate 100 (CHR ''x'') \<noteq> ''beta''"
  "''alpha'' \<noteq> replicate 100 (CHR ''x'')"
  "''beta'' \<noteq> replicate 100 (CHR ''x'')"
  by (auto dest: arg_cong [where f = length])

section \<open>Query expansion without paraphrases\<close>

text \<open>
  C5, as the code has it: without a language model, or when the paraphrase call
  raises, the list of paraphrases is the original query alone, so every similarity
  search that is issued is for the original query text; the result is the first \<open>k\<close>
  passages the vector store returns for it when these have pairwise different
  fingerprints, and the exception of the search when it raises.
\<close>

theorem expansion_without_paraphrases:
  "(llm_opt = None \<or> (\<exists>ask e. llm_opt = Some ask \<and> ask (paraphrase_prompt n query) = Inl e)) \<longrightarrow>
     generate_paraphrases llm_opt n query = [query]
     \<and> set (snd (expansion_retrieve_traced vs llm_opt n query k)) = {(query, k)}
     \<and> (\<forall>docs. vs query k = Inr docs \<and> distinct (map fingerprint docs) \<longrightarrow>
           expansion_retrieve vs llm_opt n query k = Inr (py_take k docs))
     \<and> (\<forall>e. vs query k = Inl e \<longrightarrow> expansion_retrieve vs llm_opt n query k = Inl e)"
proof
  assume "llm_opt = None \<or> (\<exists>ask e. llm_opt = Some ask \<and> ask (paraphrase_prompt n query) = Inl e)"
  then have g: "generate_paraphrases llm_opt n query = [query]"
    by (rule generate_paraphrases_fallback)
  have t: "set (snd (expansion_retrieve_traced vs llm_opt n query k)) = {(query, k)}"
  proof (cases "vs query k")
    case (Inl e)
    show ?thesis
      by (simp add: expansion_traced_failed [where vs = vs, OF g Inl])
  next
    case (Inr docs)
    show ?thesis
      by (simp add: expansion_traced_twice [where vs = vs, OF g Inr])
  qed
  have d: "\<forall>docs. vs query k = Inr docs \<and> distinct (map fingerprint docs) \<longrightarrow>
           expansion_retrieve vs llm_opt n query k = Inr (py_take k docs)"
  proof (intro allI impI)
    fix docs assume a: "vs query k = Inr docs \<and> distinct (map fingerprint docs)"
    then have v: "vs query k = Inr docs" and di: "distinct (map fingerprint docs)"
      by simp_all
    show "expansion_retrieve vs llm_opt n query k = Inr (py_take k docs)"
      unfolding expansion_retrieve_def expansion_traced_twice [where vs = vs, OF g v]
      by (simp only: fst_conv expansion_twice_result [OF di])
  qed
  have f: "\<forall>e. vs query k = Inl e \<longrightarrow> expansion_retrieve vs llm_opt n query k = Inl e"
  proof (intro allI impI)
    fix e assume v: "vs query k = Inl e"
    show "expansion_retrieve vs llm_opt n query k = Inl e"
      unfolding expansion_retrieve_def expansion_traced_failed [where vs = vs, OF g v]
      by simp
  qed
  from g t d f show "generate_paraphrases llm_opt n query = [query]
     \<and> set (snd (expansion_retrieve_traced vs llm_opt n query k)) = {(query, k)}
     \<and> (\<forall>docs. vs query k = Inr docs \<and> distinct (map fingerprint docs) \<longrightarrow>
           expansion_retrieve vs llm_opt n query k = Inr (py_take k docs))
     \<and> (\<forall>e. vs query k = Inl e \<longrightarrow> expansion_retrieve vs llm_opt n query k = Inl e)"
    by blast
qed

theorem expansion_without_paraphrases_witness:
  "failing_llm (paraphrase_prompt 3 ''what is faiss'') = Inl LLMError
   \<and> generate_paraphrases (Some failing_llm) 3 ''what is faiss'' = [''what is faiss'']
   \<and> store_abc ''what is faiss'' 2 = Inr [doc_a, doc_b]
   \<and> distinct (map fingerprint [doc_a, doc_b])
   \<and> expansion_retrieve store_abc (Some failing_llm) 3 ''what is faiss'' 2 = Inr [doc_a, doc_b]
   \<and> expansion_retrieve store_abc None 3 ''what is faiss'' 2 = Inr [doc_a, doc_b]
   \<and> failing_store ''what is faiss'' 2 = Inl SearchError
   \<and> expansion_retrieve failing_store None 3 ''what is faiss'' 2 = Inl SearchError"
proof -
  have l: "failing_llm (paraphrase_prompt 3 ''what is faiss'') = Inl LLMError"
    by (simp add: failing_llm_def)
  have s: "store_abc ''what is faiss'' 2 = Inr [doc_a, doc_b]"
    by (simp add: store_abc_def py_take_def)
  have d: "distinct (map fingerprint [doc_a, doc_b])"
    by (simp add: example_fingerprints)
  have f: "failing_store ''what is faiss'' 2 = Inl SearchError"
    by (simp add: failing_store_def)
  note t1 = expansion_without_paraphrases [where llm_opt = "Some failing_llm" and n = 3
      and query = "''what is faiss''" and vs = store_abc and k = 2]
  note t2 = expansion_without_paraphrases [where llm_opt = None and n = 3
      and query = "''what is faiss''" and vs = store_abc and k = 2]
  note t3 = expansion_without_paraphrases [where llm_opt = None and n = 3
      and query = "''what is faiss''" and vs = failing_store and k = 2]
  have g: "generate_paraphrases (Some failing_llm) 3 ''what is faiss'' = [''what is faiss'']"
    using t1 l by blast
  have r1: "expansion_retrieve store_abc (Some failing_llm) 3 ''what is faiss'' 2
              = Inr (py_take 2 [doc_a, doc_b])"
    using t1 l s d by blast
  have r2: "expansion_retrieve store_abc None 3 ''what is faiss'' 2 = Inr (py_take 2 [doc_a, doc_b])"
    using t2 s d by blast
  have r3: "expansion_retrieve failing_store None 3 ''what is faiss'' 2 = Inl SearchError"
    using t3 f by blast
  from l g s d r1 r2 f r3 show ?thesis
    by (simp add: py_take_def)
qed

text \<open>C5 as stated fails: two searches are issued, and two passages of one
  fingerprint are merged.\<close>

theorem expansion_without_paraphrases_counterexample:
  "generate_paraphrases None 3 ''what is faiss'' = [''what is faiss'']
   \<and> snd (expansion_retrieve_traced store_collide None 3 ''what is faiss'' 3)
        = [(''what is faiss'', 3), (''what is faiss'', 3)]
   \<and> store_collide ''what is faiss'' 3 = Inr [doc_p1, doc_p2, doc_a]
   \<and> expansion_retrieve store_collide None 3 ''what is faiss'' 3 = Inr [doc_p1, doc_a]"
proof -
  have g: "generate_paraphrases None 3 ''what is faiss'' = [''what is faiss'']"
    by (simp add: generate_paraphrases_def)
  have s: "store_collide ''what is faiss'' 3 = Inr [doc_p1, doc_p2, doc_a]"
    by (simp add: store_collide_def py_take_def)
  have dd: "fold expansion_add ([doc_p1, doc_p2, doc_a] @ [doc_p1, doc_p2, doc_a]) []
              = [(replicate 100 (CHR ''x''), doc_p1, 4), (''alpha'', doc_a, 2)]"
    by (simp add: expansion_add_def dict_contains_def dict_new_def dict_update_def
        example_fingerprints example_fingerprints_differ)
  have t: "expansion_retrieve_traced store_collide None 3 ''what is faiss'' 3
             = (Inr [doc_p1, doc_a], [(''what is faiss'', 3), (''what is faiss'', 3)])"
    unfolding expansion_traced_twice [where vs = store_collide, OF g s] dd
    by (simp add: expansion_sorted_def py_take_def)
  from g s t show ?thesis
    by (simp add: expansion_retrieve_def)
qed








section \<open>Hybrid rank fusion\<close>



























section \<open>At most k passages\<close>












section \<open>Constructing a strategy\<close>





section \<open>Failure of the baseline search\<close>

text \<open>
  C2, as the code has it: when the similarity search of the vector store raises,
  the semantic strategy catches the exception and returns the empty list; the failure
  does not reach the caller.
\<close>

theorem semantic_masks_failure:
  "vs query k = Inl e \<Longrightarrow> semantic_retrieve vs query k = Inr []"
  by (simp add: semantic_retrieve_def)

theorem semantic_masks_failure_witness:
  "failing_store ''what is faiss'' 3 = Inl SearchError
   \<and> semantic_retrieve failing_store ''what is faiss'' 3 = Inr []"
  using semantic_masks_failure [of failing_store "''what is faiss''" 3 SearchError]
  by (simp add: failing_store_def)

text \<open>C2 as stated fails: the search raises and the semantic strategy does not.\<close>

theorem semantic_propagates_counterexample:
  "failing_store ''what is faiss'' 3 = Inl SearchError
   \<and> semantic_retrieve failing_store ''what is faiss'' 3 \<noteq> Inl SearchError"
  by (simp add: failing_store_def semantic_retrieve_def)

text \<open>
  C9, as the code has it: without a lexical index the hybrid strategy returns what
  the similarity search returns, as the semantic strategy does; when the search raises,
  the hybrid strategy searches again and lets the exception through, while the semantic
  strategy returns the empty list.
\<close>

theorem hybrid_without_bm25:
  "(vs query k = Inr docs \<longrightarrow>
      hybrid_retrieve vs sw kw None query k = Inr docs
      \<and> semantic_retrieve vs query k = Inr docs)
   \<and> (vs query k = Inl e \<longrightarrow>
      hybrid_retrieve vs sw kw None query k = Inl e
      \<and> semantic_retrieve vs query k = Inr [])"
  by (simp add: hybrid_retrieve_def semantic_retrieve_def try_except_def)

theorem hybrid_without_bm25_witness:
  "store_abc ''what is faiss'' 2 = Inr [doc_a, doc_b]
   \<and> hybrid_retrieve store_abc 0.6 0.4 None ''what is faiss'' 2 = Inr [doc_a, doc_b]
   \<and> semantic_retrieve store_abc ''what is faiss'' 2 = Inr [doc_a, doc_b]
   \<and> failing_store ''what is faiss'' 2 = Inl SearchError
   \<and> hybrid_retrieve failing_store 0.6 0.4 None ''what is faiss'' 2 = Inl SearchError
   \<and> semantic_retrieve failing_store ''what is faiss'' 2 = Inr []"
  using hybrid_without_bm25 [of store_abc "''what is faiss''" 2 "[doc_a, doc_b]" "0.6" "0.4" SearchError]
    hybrid_without_bm25 [of failing_store "''what is faiss''" 2 "[]" "0.6" "0.4" SearchError]
  by (simp add: store_abc_def failing_store_def py_take_def)

text \<open>C9 as stated fails when the search raises.\<close>

theorem hybrid_without_bm25_counterexample:
  "hybrid_retrieve failing_store 0.6 0.4 None ''what is faiss'' 3
     \<noteq> semantic_retrieve failing_store ''what is faiss'' 3"
  by (simp add: hybrid_retrieve_def semantic_retrieve_def try_except_def failing_store_def)

end
